theory Spec2Isabelle
  imports Main "HOL-Library.Sublist" "HOL-Library.AList"
begin

section \<open>JSON values and the Python operations applied to them\<close>

text \<open>
  Every value the inspector handles comes out of \<^verbatim>\<open>response.json()\<close>: a dict with
  string keys, a list, a string, an integer, a boolean or \<^verbatim>\<open>None\<close>. A dict is kept as
  the list of its items in insertion order. JSON numbers with a fraction or an exponent
  (Python floats) are outside the model: the counts and ids of the API are integers.
\<close>

datatype json =
    JNull
  | JBool bool
  | JInt int
  | JStr string
  | JList "json list"
  | JObj "(string \<times> json) list"

text \<open>The exceptions below \<^verbatim>\<open>Exception\<close> that operations on such values raise.\<close>

datatype exn = AttributeError | TypeError | KeyError | IndexError | ValueError

text \<open>Truth value of an object, as \<^verbatim>\<open>if x\<close>, \<^verbatim>\<open>not x\<close> and \<^verbatim>\<open>x and y\<close> test it.\<close>

fun truthy :: "json \<Rightarrow> bool" where
  "truthy JNull = False"
| "truthy (JBool b) = b"
| "truthy (JInt n) = (n \<noteq> 0)"
| "truthy (JStr s) = (s \<noteq> [])"
| "truthy (JList xs) = (xs \<noteq> [])"
| "truthy (JObj kvs) = (kvs \<noteq> [])"

text \<open>
  \<^verbatim>\<open>a == b\<close>. A boolean is an integer (\<^verbatim>\<open>True == 1\<close>); lists are compared element by
  element; two dicts are equal when they have as many keys and every key of the first
  has an equal value in the second.
\<close>

fun py_eq :: "json \<Rightarrow> json \<Rightarrow> bool" where
  "py_eq JNull JNull = True"
| "py_eq (JBool a) (JBool b) = (a = b)"
| "py_eq (JBool a) (JInt n) = (n = (if a then 1 else 0))"
| "py_eq (JInt n) (JBool a) = (n = (if a then 1 else 0))"
| "py_eq (JInt m) (JInt n) = (m = n)"
| "py_eq (JStr s) (JStr t) = (s = t)"
| "py_eq (JList []) (JList []) = True"
| "py_eq (JList (x # xs)) (JList (y # ys)) = (py_eq x y \<and> py_eq (JList xs) (JList ys))"
| "py_eq (JObj []) (JObj []) = True"
| "py_eq (JObj ((k, v) # kvs)) (JObj ws) =
     (case map_of ws k of
        None \<Rightarrow> False
      | Some w \<Rightarrow> py_eq v w \<and> py_eq (JObj kvs) (JObj (AList.delete k ws)))"
| "py_eq _ _ = False"

text \<open>
  The integer a value stands for in \<^verbatim>\<open>x > k\<close> and \<^verbatim>\<open>x - k\<close> with an integer
  \<^verbatim>\<open>k\<close>; on a value that has none the comparison raises \<^verbatim>\<open>TypeError\<close>.
\<close>

fun int_value :: "json \<Rightarrow> int option" where
  "int_value (JInt n) = Some n"
| "int_value (JBool b) = Some (if b then 1 else 0)"
| "int_value _ = None"

text \<open>\<^verbatim>\<open>sub in s\<close> on strings: \<^verbatim>\<open>sub\<close> occurs in \<^verbatim>\<open>s\<close> as a contiguous run.\<close>

fun contains :: "string \<Rightarrow> string \<Rightarrow> bool" where
  "contains sub [] = (sub = [])"
| "contains sub (c # cs) = (prefix sub (c # cs) \<or> contains sub cs)"

text \<open>
  \<^verbatim>\<open>key in x\<close> for a string \<^verbatim>\<open>key\<close>: key membership in a dict, element membership in
  a list, substring test on a string, and a \<^verbatim>\<open>TypeError\<close> on anything else.
\<close>

fun py_in :: "string \<Rightarrow> json \<Rightarrow> exn + bool" where
  "py_in key (JObj kvs) = Inr (key \<in> fst ` set kvs)"
| "py_in key (JList xs) = Inr (JStr key \<in> set xs)"
| "py_in key (JStr s) = Inr (contains key s)"
| "py_in key _ = Inl TypeError"

text \<open>\<^verbatim>\<open>x[key]\<close> for a string \<^verbatim>\<open>key\<close>: only a dict can be indexed by a string.\<close>

fun py_getitem :: "json \<Rightarrow> string \<Rightarrow> exn + json" where
  "py_getitem (JObj kvs) key = (case map_of kvs key of None \<Rightarrow> Inl KeyError | Some v \<Rightarrow> Inr v)"
| "py_getitem _ key = Inl TypeError"

text \<open>\<^verbatim>\<open>x.get(key, default)\<close>: only a dict has the method.\<close>

fun py_get :: "json \<Rightarrow> string \<Rightarrow> json \<Rightarrow> exn + json" where
  "py_get (JObj kvs) key dflt = Inr (case map_of kvs key of None \<Rightarrow> dflt | Some v \<Rightarrow> v)"
| "py_get _ key dflt = Inl AttributeError"

text \<open>
  \<^verbatim>\<open>x[0]\<close>: the first element of a list, the first character of a string, an
  \<^verbatim>\<open>IndexError\<close> when they are empty, a \<^verbatim>\<open>KeyError\<close> on a dict (its keys are
  strings) and a \<^verbatim>\<open>TypeError\<close> on the rest.
\<close>

fun py_first :: "json \<Rightarrow> exn + json" where
  "py_first (JList (x # xs)) = Inr x"
| "py_first (JStr (c # cs)) = Inr (JStr [c])"
| "py_first (JList []) = Inl IndexError"
| "py_first (JStr []) = Inl IndexError"
| "py_first (JObj kvs) = Inl KeyError"
| "py_first _ = Inl TypeError"

text \<open>
  The elements a \<^verbatim>\<open>for\<close> loop sees in \<^verbatim>\<open>x[:n]\<close>: the first \<^verbatim>\<open>n\<close> elements of a list,
  the first \<^verbatim>\<open>n\<close> characters of a string as one-character strings. Slicing anything
  else raises (a \<^verbatim>\<open>TypeError\<close>; for a dict a \<^verbatim>\<open>KeyError\<close> from Python 3.12 on, which
  the same handlers catch).
\<close>

fun py_slice :: "nat \<Rightarrow> json \<Rightarrow> exn + json list" where
  "py_slice n (JList xs) = Inr (take n xs)"
| "py_slice n (JStr s) = Inr (map (\<lambda>c. JStr [c]) (take n s))"
| "py_slice n _ = Inl TypeError"

subsection \<open>String methods\<close>

definition lstrip :: "char \<Rightarrow> string \<Rightarrow> string" where
  "lstrip ch s = dropWhile (\<lambda>c. c = ch) s"

definition rstrip :: "char \<Rightarrow> string \<Rightarrow> string" where
  "rstrip ch s = rev (dropWhile (\<lambda>c. c = ch) (rev s))"

text \<open>
  \<^verbatim>\<open>s.split(sep)\<close> for a non-empty separator: the pieces between the occurrences of
  \<^verbatim>\<open>sep\<close>, found from the left without overlap. \<open>cur\<close> is the piece being read.
\<close>

fun split_from :: "string \<Rightarrow> string \<Rightarrow> string \<Rightarrow> string list" where
  "split_from sep cur [] = [cur]"
| "split_from sep cur (c # cs) =
     (if prefix sep (c # cs) then cur # split_from sep [] (drop (length sep - 1) cs)
      else split_from sep (cur @ [c]) cs)"

definition py_split :: "string \<Rightarrow> string \<Rightarrow> string list" where
  "py_split sep s = split_from sep [] s"

section \<open>The world outside the script\<close>

text \<open>
  What the script takes from Python and from the network is a parameter of the model:
  \<^item> \<open>py_int s\<close> is \<^verbatim>\<open>int(s)\<close> on a string: \<open>None\<close> where it raises \<^verbatim>\<open>ValueError\<close>;
  \<^item> \<open>py_str v\<close> is the text an f-string puts for \<^verbatim>\<open>{v}\<close>;
  \<^item> \<open>urljoin base endpoint\<close> is \<^verbatim>\<open>urllib.parse.urljoin\<close>, taken to return (it raises
    only for a base that is not a URL);
  \<^item> \<open>http url\<close> is what \<^verbatim>\<open>session.get(url)\<close>, \<^verbatim>\<open>raise_for_status()\<close> and
    \<^verbatim>\<open>response.json()\<close> together come to: the decoded body, or a
    \<^verbatim>\<open>RequestException\<close> (transport error, status of 400 and above, undecodable
    body), which carries the text of the response when there was one.
  The server answers the same URL the same way during one run.
\<close>

datatype response = Failure "string option" | Body json

record env =
  py_int :: "string \<Rightarrow> int option"
  py_str :: "json \<Rightarrow> string"
  urljoin :: "string \<Rightarrow> string \<Rightarrow> string"
  http :: "string \<Rightarrow> response"

text \<open>
  What a run does that can be observed: the requests it sends, the lines it prints on
  either stream, the file it writes. A printed line that shows values keeps them as
  values; fixed text is kept as text.
\<close>

datatype line =
    Text string
  | RequestError string
  | ResponseText string
  | OrgNotFound string
  | OrgHeading json
  | OrgField string json
  | Count json
  | Item json json
  | More int
  | ErrorRetrieving string exn
  | CrossOrgWarning json json
  | ErrorChecking json exn
  | Exported string
  | Traceback exn

datatype event =
    Request string
  | Stdout line
  | Stderr line
  | FileWrite string json

text \<open>
  How a call ends: it returns, it raises an exception that \<^verbatim>\<open>except Exception\<close>
  catches, or \<^verbatim>\<open>sys.exit\<close> raises \<^verbatim>\<open>SystemExit\<close>, which \<^verbatim>\<open>except Exception\<close> and
  \<^verbatim>\<open>except ValueError\<close> let through.
\<close>

datatype 'a outcome = Ok 'a | Raised exn | Exit int

type_synonym 'a run = "event list \<times> 'a outcome"

definition ret :: "'a \<Rightarrow> 'a run" where
  "ret x = ([], Ok x)"

definition emit :: "event \<Rightarrow> unit run" where
  "emit ev = ([ev], Ok ())"

definition lift :: "exn + 'a \<Rightarrow> 'a run" where
  "lift r = (case r of Inl e \<Rightarrow> ([], Raised e) | Inr x \<Rightarrow> ([], Ok x))"

text \<open>One statement after another: the second runs only if the first returned.\<close>

definition andthen :: "'a run \<Rightarrow> ('a \<Rightarrow> 'b run) \<Rightarrow> 'b run" where
  "andthen m f =
     (case m of
        (evs, Ok x) \<Rightarrow> (case f x of (evs', r) \<Rightarrow> (evs @ evs', r))
      | (evs, Raised e) \<Rightarrow> (evs, Raised e)
      | (evs, Exit n) \<Rightarrow> (evs, Exit n))"

section \<open>The API client\<close>

record client =
  base_url :: string
  api_base :: string

definition AAPClient :: "string \<Rightarrow> client" where
  "AAPClient url =
     \<lparr>base_url = rstrip (CHR ''/'') url,
      api_base = rstrip (CHR ''/'') url @ ''/api/v2/''\<rparr>"

definition get :: "env \<Rightarrow> client \<Rightarrow> string \<Rightarrow> json run" where
  "get E c endpoint =
     (let url = urljoin E (api_base c) endpoint in
      case http E url of
        Body j \<Rightarrow> ([Request url], Ok j)
      | Failure txt \<Rightarrow>
          ([Request url, Stderr (RequestError url)] @
           (case txt of None \<Rightarrow> [] | Some t \<Rightarrow> [Stderr (ResponseText t)]),
           Exit 1))"

definition get_organizations :: "env \<Rightarrow> client \<Rightarrow> json run" where
  "get_organizations E c = get E c ''organizations/''"

definition get_organization_by_name :: "env \<Rightarrow> client \<Rightarrow> string \<Rightarrow> json run" where
  "get_organization_by_name E c org_name =
     andthen (get E c (''organizations/?name='' @ org_name)) (\<lambda>response.
     andthen (lift (py_get response ''results'' (JList []))) (\<lambda>results.
     if truthy results then lift (py_first results) else ret JNull))"

definition get_organization_by_id :: "env \<Rightarrow> client \<Rightarrow> int \<Rightarrow> json run" where
  "get_organization_by_id E c org_id =
     get E c (''organizations/'' @ py_str E (JInt org_id) @ ''/'')"

text \<open>
  \<^verbatim>\<open>get_related_data\<close>. \<^verbatim>\<open>startswith\<close>, \<^verbatim>\<open>split\<close> and \<^verbatim>\<open>lstrip\<close> are methods of
  strings only: any other value raises \<^verbatim>\<open>AttributeError\<close>. The \<^verbatim>\<open>None\<close> returned for
  an absolute URL without the marker is \<^const>\<open>JNull\<close>.
\<close>

definition get_related_data :: "env \<Rightarrow> client \<Rightarrow> json \<Rightarrow> json run" where
  "get_related_data E c related_url =
     (case related_url of
        JStr s \<Rightarrow>
          (if prefix ''http'' s then
             (case py_split ''/api/v2/'' s of
                p0 # p1 # ps \<Rightarrow> get E c p1
              | _ \<Rightarrow> ret JNull)
           else get E c (lstrip (CHR ''/'') s))
      | _ \<Rightarrow> ([], Raised AttributeError))"

section \<open>The organization inspector\<close>

subsection \<open>The report\<close>

text \<open>
  An item of a preview list is the dict \<^verbatim>\<open>{'id': item_id, 'name': name}\<close>. The
  \<^verbatim>\<open>dependencies\<close> dict has one key for each resource type that was previewed, in the
  order they were added, and may have the key \<^verbatim>\<open>'cross_org_credentials'\<close>, whose list
  holds dicts \<^verbatim>\<open>{'credential': cred, 'organization_id': cred_org_id}\<close>; that key is
  \<open>None\<close> here as long as it is not in the dict.
\<close>

record summary =
  summary_id :: json
  summary_name :: json

record dependency_map =
  by_type :: "(string \<times> summary list) list"
  cross_org_credentials :: "(summary \<times> json) list option"

definition no_dependencies :: dependency_map where
  "no_dependencies = \<lparr>by_type = [], cross_org_credentials = None\<rparr>"

definition dep_keys :: "dependency_map \<Rightarrow> string set" where
  "dep_keys deps =
     fst ` set (by_type deps) \<union>
     (case cross_org_credentials deps of None \<Rightarrow> {} | Some xs \<Rightarrow> {''cross_org_credentials''})"

record report =
  organization :: json
  dependencies :: dependency_map

definition summary_json :: "summary \<Rightarrow> json" where
  "summary_json s = JObj [(''id'', summary_id s), (''name'', summary_name s)]"

definition dependencies_json :: "dependency_map \<Rightarrow> json" where
  "dependencies_json deps =
     JObj (map (\<lambda>(k, xs). (k, JList (map summary_json xs))) (by_type deps) @
           (case cross_org_credentials deps of
              None \<Rightarrow> []
            | Some xs \<Rightarrow>
                [(''cross_org_credentials'',
                  JList (map (\<lambda>(cred, owner).
                    JObj [(''credential'', summary_json cred), (''organization_id'', owner)]) xs))]))"

definition report_json :: "report \<Rightarrow> json" where
  "report_json r =
     JObj [(''organization'', organization r),
           (''dependencies'', dependencies_json (dependencies r))]"

subsection \<open>Printing the organization\<close>

definition important_fields :: "string list" where
  "important_fields =
     [''id'', ''name'', ''description'', ''created'', ''modified'',
      ''max_hosts'', ''custom_virtualenv'', ''default_environment'']"

fun display_fields :: "json \<Rightarrow> string list \<Rightarrow> unit run" where
  "display_fields org [] = ret ()"
| "display_fields org (field # rest) =
     andthen (lift (py_in field org)) (\<lambda>present.
     andthen (if present then
                andthen (lift (py_getitem org field)) (\<lambda>v.
                emit (Stdout (OrgField field
                  (if v = JNull \<or> py_eq v (JStr []) then JStr ''N/A'' else v))))
              else ret ()) (\<lambda>_.
     display_fields org rest))"

definition display_org_details :: "json \<Rightarrow> unit run" where
  "display_org_details org =
     andthen (emit (Stdout (Text ''Basic Information:''))) (\<lambda>_.
     andthen (emit (Stdout (Text (replicate 80 (CHR ''-''))))) (\<lambda>_.
     andthen (display_fields org important_fields) (\<lambda>_.
     emit (Stdout (Text [])))))"

subsection \<open>The traversal of the related resources\<close>

definition resource_types :: "(string \<times> string) list" where
  "resource_types =
     [(''teams'', ''Teams''),
      (''users'', ''Users''),
      (''projects'', ''Projects''),
      (''inventories'', ''Inventories''),
      (''job_templates'', ''Job Templates''),
      (''workflow_job_templates'', ''Workflow Job Templates''),
      (''credentials'', ''Credentials''),
      (''notification_templates'', ''Notification Templates''),
      (''instance_groups'', ''Instance Groups''),
      (''applications'', ''Applications''),
      (''activity_stream'', ''Activity Stream''),
      (''access_list'', ''Access List'')]"

text \<open>
  The loop over \<^verbatim>\<open>data['results'][:5]\<close>. It returns what it printed, the list as far
  as it was filled, and the exception that stopped it, if one did: the items appended
  before an exception stay in the list.
\<close>

fun preview_items :: "json list \<Rightarrow> summary list \<Rightarrow> event list \<times> summary list \<times> exn option" where
  "preview_items [] acc = ([], acc, None)"
| "preview_items (item # items) acc =
     (case py_get item ''username'' (JStr ''N/A'') of
        Inl e \<Rightarrow> ([], acc, Some e)
      | Inr fallback \<Rightarrow>
          (case py_get item ''name'' fallback of
             Inl e \<Rightarrow> ([], acc, Some e)
           | Inr name \<Rightarrow>
               (case py_get item ''id'' (JStr ''N/A'') of
                  Inl e \<Rightarrow> ([], acc, Some e)
                | Inr item_id \<Rightarrow>
                    (case preview_items items
                            (acc @ [\<lparr>summary_id = item_id, summary_name = name\<rparr>]) of
                       (evs, acc', err) \<Rightarrow> (Stdout (Item item_id name) # evs, acc', err)))))"

text \<open>
  The \<^verbatim>\<open>try\<close> block from \<^verbatim>\<open>count = data.get('count', 0)\<close> on. It returns what it
  printed, the list it left under the type's key (\<open>None\<close> when it did not create the
  key) and how it ended. \<^verbatim>\<open>count > 0\<close> raises \<^verbatim>\<open>TypeError\<close> unless \<^verbatim>\<open>count\<close> is
  a number; \<^verbatim>\<open>dependencies[field] = []\<close> runs before \<^verbatim>\<open>data['results'][:5]\<close> is
  evaluated.
\<close>

definition preview_page :: "json \<Rightarrow> event list \<times> summary list option \<times> unit outcome" where
  "preview_page data =
     (case py_get data ''count'' (JInt 0) of
        Inl e \<Rightarrow> ([], None, Raised e)
      | Inr count \<Rightarrow>
          (case int_value count of
             None \<Rightarrow> ([Stdout (Count count)], None, Raised TypeError)
           | Some n \<Rightarrow>
               (case py_in ''results'' data of
                  Inl e \<Rightarrow> ([Stdout (Count count)], None, if 0 < n then Raised e else Ok ())
                | Inr has_results \<Rightarrow>
                    if \<not> (0 < n \<and> has_results) then ([Stdout (Count count)], None, Ok ())
                    else
                      (case py_getitem data ''results'' of
                         Inl e \<Rightarrow> ([Stdout (Count count)], Some [], Raised e)
                       | Inr results \<Rightarrow>
                           (case py_slice 5 results of
                              Inl e \<Rightarrow> ([Stdout (Count count)], Some [], Raised e)
                            | Inr items \<Rightarrow>
                                (case preview_items items [] of
                                   (evs, xs, Some e) \<Rightarrow>
                                     (Stdout (Count count) # evs, Some xs, Raised e)
                                 | (evs, xs, None) \<Rightarrow>
                                     (Stdout (Count count) # evs @
                                      (if 5 < n then [Stdout (More (n - 5))] else []),
                                      Some xs, Ok ())))))))"

text \<open>The whole \<^verbatim>\<open>try\<close> block of one resource type.\<close>

definition try_fetch ::
  "env \<Rightarrow> client \<Rightarrow> json \<Rightarrow> string \<Rightarrow> event list \<times> summary list option \<times> unit outcome" where
  "try_fetch E c related_fields field =
     (case py_getitem related_fields field of
        Inl e \<Rightarrow> ([], None, Raised e)
      | Inr link \<Rightarrow>
          (case get_related_data E c link of
             (evs, Ok data) \<Rightarrow>
               (case preview_page data of (evs', stored, r) \<Rightarrow> (evs @ evs', stored, r))
           | (evs, Raised e) \<Rightarrow> (evs, None, Raised e)
           | (evs, Exit n) \<Rightarrow> (evs, None, Exit n)))"

definition store :: "string \<Rightarrow> summary list option \<Rightarrow> dependency_map \<Rightarrow> dependency_map" where
  "store field stored deps =
     (case stored of
        None \<Rightarrow> deps
      | Some xs \<Rightarrow> deps\<lparr>by_type := AList.update field xs (by_type deps)\<rparr>)"

text \<open>
  One iteration of \<^verbatim>\<open>for field, label in resource_types\<close>. The test
  \<^verbatim>\<open>field in related_fields\<close> is outside the \<^verbatim>\<open>try\<close>; the handler catches what
  \<^verbatim>\<open>except Exception\<close> catches.
\<close>

definition type_step ::
  "env \<Rightarrow> client \<Rightarrow> json \<Rightarrow> string \<times> string \<Rightarrow> dependency_map \<Rightarrow> dependency_map run" where
  "type_step E c related_fields t deps =
     (case t of (field, label) \<Rightarrow>
        (case py_in field related_fields of
           Inl e \<Rightarrow> ([], Raised e)
         | Inr present \<Rightarrow>
             if \<not> present then ([], Ok deps)
             else
               (case try_fetch E c related_fields field of
                  (evs, stored, r) \<Rightarrow>
                    (let evs' = [Stdout (Text []), Stdout (Text (label @ '':''))] @ evs;
                         deps' = store field stored deps
                     in case r of
                          Ok u \<Rightarrow> (evs', Ok deps')
                        | Raised e \<Rightarrow> (evs' @ [Stdout (ErrorRetrieving label e)], Ok deps')
                        | Exit n \<Rightarrow> (evs', Exit n)))))"

fun types_loop ::
  "env \<Rightarrow> client \<Rightarrow> json \<Rightarrow> (string \<times> string) list \<Rightarrow> dependency_map \<Rightarrow> dependency_map run" where
  "types_loop E c related_fields [] deps = ret deps"
| "types_loop E c related_fields (t # ts) deps =
     andthen (type_step E c related_fields t deps) (types_loop E c related_fields ts)"

subsection \<open>The check of the credentials\<close>

text \<open>
  \<^verbatim>\<open>cred_org_id = cred_detail.get('organization')\<close> and the test
  \<^verbatim>\<open>cred_org_id and cred_org_id != org['id']\<close>: the owner when the test holds.
  \<^verbatim>\<open>org['id']\<close> is evaluated only for a truthy owner.
\<close>

definition foreign_owner :: "json \<Rightarrow> json \<Rightarrow> exn + json option" where
  "foreign_owner cred_detail org =
     (case py_get cred_detail ''organization'' JNull of
        Inl e \<Rightarrow> Inl e
      | Inr cred_org_id \<Rightarrow>
          if \<not> truthy cred_org_id then Inr None
          else
            (case py_getitem org ''id'' of
               Inl e \<Rightarrow> Inl e
             | Inr org_id \<Rightarrow>
                 if py_eq cred_org_id org_id then Inr None else Inr (Some cred_org_id)))"

definition add_cross_org :: "summary \<Rightarrow> json \<Rightarrow> dependency_map \<Rightarrow> dependency_map" where
  "add_cross_org cred cred_org_id deps =
     deps\<lparr>cross_org_credentials :=
       Some ((case cross_org_credentials deps of None \<Rightarrow> [] | Some xs \<Rightarrow> xs) @
             [(cred, cred_org_id)])\<rparr>"

definition credential_endpoint :: "env \<Rightarrow> summary \<Rightarrow> string" where
  "credential_endpoint E cred = ''credentials/'' @ py_str E (summary_id cred) @ ''/''"

text \<open>One iteration of \<^verbatim>\<open>for cred in dependencies['credentials']\<close>.\<close>

definition check_credential ::
  "env \<Rightarrow> client \<Rightarrow> json \<Rightarrow> summary \<Rightarrow> dependency_map \<Rightarrow> dependency_map run" where
  "check_credential E c org cred deps =
     (case get E c (credential_endpoint E cred) of
        (evs, Exit n) \<Rightarrow> (evs, Exit n)
      | (evs, Raised e) \<Rightarrow> (evs @ [Stdout (ErrorChecking (summary_id cred) e)], Ok deps)
      | (evs, Ok cred_detail) \<Rightarrow>
          (case foreign_owner cred_detail org of
             Inl e \<Rightarrow> (evs @ [Stdout (ErrorChecking (summary_id cred) e)], Ok deps)
           | Inr None \<Rightarrow> (evs, Ok deps)
           | Inr (Some cred_org_id) \<Rightarrow>
               (evs @ [Stdout (CrossOrgWarning (summary_name cred) cred_org_id)],
                Ok (add_cross_org cred cred_org_id deps))))"

fun credentials_loop ::
  "env \<Rightarrow> client \<Rightarrow> json \<Rightarrow> summary list \<Rightarrow> dependency_map \<Rightarrow> dependency_map run" where
  "credentials_loop E c org [] deps = ret deps"
| "credentials_loop E c org (cred # creds) deps =
     andthen (check_credential E c org cred deps) (credentials_loop E c org creds)"

definition check_credentials :: "env \<Rightarrow> client \<Rightarrow> json \<Rightarrow> dependency_map \<Rightarrow> dependency_map run" where
  "check_credentials E c org deps =
     (case map_of (by_type deps) ''credentials'' of
        None \<Rightarrow> ret deps
      | Some creds \<Rightarrow>
          andthen (emit (Stdout (Text []))) (\<lambda>_.
          andthen (emit (Stdout
            (Text ''Checking credentials for cross-organization dependencies...''))) (\<lambda>_.
          credentials_loop E c org creds deps)))"

definition find_dependencies :: "env \<Rightarrow> client \<Rightarrow> json \<Rightarrow> dependency_map run" where
  "find_dependencies E c org =
     andthen (emit (Stdout (Text ''DEPENDENCIES & RELATED RESOURCES:''))) (\<lambda>_.
     andthen (emit (Stdout (Text (replicate 80 (CHR ''-''))))) (\<lambda>_.
     andthen (lift (py_get org ''related'' (JObj []))) (\<lambda>related_fields.
     andthen (lift (py_get org ''summary_fields'' (JObj []))) (\<lambda>summary_fields.
     andthen (types_loop E c related_fields resource_types no_dependencies) (\<lambda>deps.
     andthen (check_credentials E c org deps) (\<lambda>deps'.
     andthen (emit (Stdout (Text []))) (\<lambda>_.
     ret deps')))))))"

subsection \<open>Inspecting an organization\<close>

text \<open>
  The \<^verbatim>\<open>try\<close> statement that opens \<^verbatim>\<open>inspect_organization\<close>. The call of
  \<^verbatim>\<open>get_organization_by_id\<close> is inside the \<^verbatim>\<open>try\<close>, so a \<^verbatim>\<open>ValueError\<close> out of it
  would be handled like one out of \<^verbatim>\<open>int\<close>.
\<close>

definition resolve_organization :: "env \<Rightarrow> client \<Rightarrow> string \<Rightarrow> json run" where
  "resolve_organization E c org_identifier =
     (case py_int E org_identifier of
        None \<Rightarrow> get_organization_by_name E c org_identifier
      | Some org_id \<Rightarrow>
          (case get_organization_by_id E c org_id of
             (evs, Raised ValueError) \<Rightarrow>
               andthen (evs, Ok ()) (\<lambda>_. get_organization_by_name E c org_identifier)
           | r \<Rightarrow> r))"

definition inspect_organization :: "env \<Rightarrow> client \<Rightarrow> string \<Rightarrow> report run" where
  "inspect_organization E c org_identifier =
     andthen (resolve_organization E c org_identifier) (\<lambda>org.
     if \<not> truthy org then ([Stderr (OrgNotFound org_identifier)], Exit 1)
     else
       andthen (emit (Stdout (Text []))) (\<lambda>_.
       andthen (emit (Stdout (Text (replicate 80 (CHR ''=''))))) (\<lambda>_.
       andthen (lift (py_getitem org ''name'')) (\<lambda>org_name.
       andthen (emit (Stdout (OrgHeading org_name))) (\<lambda>_.
       andthen (emit (Stdout (Text (replicate 80 (CHR ''=''))))) (\<lambda>_.
       andthen (emit (Stdout (Text []))) (\<lambda>_.
       andthen (display_org_details org) (\<lambda>_.
       andthen (find_dependencies E c org) (\<lambda>deps.
       ret \<lparr>organization = org, dependencies = deps\<rparr>)))))))))"

text \<open>
  \<^verbatim>\<open>export_to_json\<close> hands the report to \<^verbatim>\<open>json.dump\<close>; the file is taken to be
  writable, and what is written is recorded as the value that was serialized.
\<close>

definition export_to_json :: "report \<Rightarrow> string \<Rightarrow> unit run" where
  "export_to_json data filename =
     ([FileWrite filename (report_json data), Stdout (Text []), Stdout (Exported filename)],
      Ok ())"

subsection \<open>The command line\<close>

text \<open>
  The parsed arguments that matter. The process ends with status 0 when \<^verbatim>\<open>main\<close>
  returns, with the status given to \<^verbatim>\<open>sys.exit\<close>, and with a traceback on the error
  stream and status 1 when an exception is not caught.
\<close>

record args =
  arg_organization :: string
  arg_url :: string
  arg_export :: "string option"

definition main :: "env \<Rightarrow> args \<Rightarrow> event list \<times> int" where
  "main E a =
     (let client = AAPClient (arg_url a) in
      case andthen (inspect_organization E client (arg_organization a)) (\<lambda>result.
           andthen (case arg_export a of
                      None \<Rightarrow> ret ()
                    | Some filename \<Rightarrow>
                        if filename \<noteq> [] then export_to_json result filename else ret ()) (\<lambda>_.
           andthen (emit (Stdout (Text []))) (\<lambda>_.
           andthen (emit (Stdout (Text (replicate 80 (CHR ''=''))))) (\<lambda>_.
           andthen (emit (Stdout (Text ''Inspection complete!''))) (\<lambda>_.
           andthen (emit (Stdout (Text (replicate 80 (CHR ''=''))))) (\<lambda>_.
           emit (Stdout (Text [])))))))) of
        (evs, Ok u) \<Rightarrow> (evs, 0)
      | (evs, Raised e) \<Rightarrow> (evs @ [Stderr (Traceback e)], 1)
      | (evs, Exit n) \<Rightarrow> (evs, n))"

section \<open>Notions used to state the properties\<close>


text \<open>The list the \<^verbatim>\<open>try\<close> block of a resource type leaves under the type's key.\<close>

definition stored_for :: "env \<Rightarrow> client \<Rightarrow> json \<Rightarrow> string \<Rightarrow> summary list option" where
  "stored_for E c related_fields field = fst (snd (try_fetch E c related_fields field))"

text \<open>What an iteration that does not exit has done to the dependencies.\<close>

definition settled_step ::
  "env \<Rightarrow> client \<Rightarrow> json \<Rightarrow> string \<times> string \<Rightarrow> dependency_map \<Rightarrow> dependency_map" where
  "settled_step E c related_fields t deps =
     (if py_in (fst t) related_fields = Inr True
      then store (fst t) (stored_for E c related_fields (fst t)) deps else deps)"

text \<open>The resource types of the catalogue that \<^verbatim>\<open>field in related_fields\<close> finds.\<close>

definition present_types :: "json \<Rightarrow> (string \<times> string) list" where
  "present_types related_fields =
     filter (\<lambda>t. py_in (fst t) related_fields = Inr True) resource_types"

text \<open>The detail record the server has for a previewed credential.\<close>

definition credential_detail :: "env \<Rightarrow> client \<Rightarrow> summary \<Rightarrow> response" where
  "credential_detail E c cred = http E (urljoin E (api_base c) (credential_endpoint E cred))"

text \<open>The owner for which the check of a credential adds an entry, if it adds one.\<close>

definition mismatch :: "env \<Rightarrow> client \<Rightarrow> json \<Rightarrow> summary \<Rightarrow> json option" where
  "mismatch E c org cred =
     (case credential_detail E c cred of
        Body cred_detail \<Rightarrow>
          (case foreign_owner cred_detail org of Inr (Some owner) \<Rightarrow> Some owner | _ \<Rightarrow> None)
      | Failure txt \<Rightarrow> None)"

definition mismatches :: "env \<Rightarrow> client \<Rightarrow> json \<Rightarrow> summary list \<Rightarrow> (summary \<times> json) list" where
  "mismatches E c org creds =
     concat (map (\<lambda>cred. case mismatch E c org cred of
                            None \<Rightarrow> []
                          | Some owner \<Rightarrow> [(cred, owner)]) creds)"

definition credentials_preview :: "dependency_map \<Rightarrow> summary list" where
  "credentials_preview deps =
     (case map_of (by_type deps) ''credentials'' of None \<Rightarrow> [] | Some creds \<Rightarrow> creds)"

definition cross_org_list :: "dependency_map \<Rightarrow> (summary \<times> json) list" where
  "cross_org_list deps = (case cross_org_credentials deps of None \<Rightarrow> [] | Some xs \<Rightarrow> xs)"

text \<open>
  In the words of the specification, the endpoint requested for an absolute URL is
  the suffix after the API version root: the text that follows the first occurrence
  of the marker, \<open>None\<close> when the marker does not occur.
\<close>

fun spec_suffix_after :: "string \<Rightarrow> string \<Rightarrow> string option" where
  "spec_suffix_after sep [] = (if sep = [] then Some [] else None)"
| "spec_suffix_after sep (c # cs) =
     (if prefix sep (c # cs) then Some (drop (length sep) (c # cs)) else spec_suffix_after sep cs)"

section \<open>A sample installation\<close>

text \<open>
  A server with two organizations, used to run the model on concrete input. Integers
  are printed and parsed in decimal; the URL of an endpoint is the base followed by
  the endpoint, which is what \<^verbatim>\<open>urljoin\<close> gives for the endpoints that occur.
  Organization 5 has seven projects and four credentials, of which 40 belongs to it,
  41 has owner 0, 42 belongs to organization 9 and 43 has no owner. The teams of
  organization 6 cannot be listed.
\<close>

fun digits :: "nat \<Rightarrow> string" where
  "digits n =
     (if n < 10 then [''0123456789'' ! n]
      else digits (n div 10) @ [''0123456789'' ! (n mod 10)])"

definition decimal :: "int \<Rightarrow> string" where
  "decimal i = (if i < 0 then CHR ''-'' # digits (nat (- i)) else digits (nat i))"

definition digit_value :: "char \<Rightarrow> nat option" where
  "digit_value ch =
     (let k = of_char ch :: nat in if 48 \<le> k \<and> k \<le> 57 then Some (k - 48) else None)"

fun parse_digits :: "string \<Rightarrow> nat \<Rightarrow> nat option" where
  "parse_digits [] acc = Some acc"
| "parse_digits (ch # cs) acc =
     (case digit_value ch of None \<Rightarrow> None | Some d \<Rightarrow> parse_digits cs (10 * acc + d))"

definition demo_int :: "string \<Rightarrow> int option" where
  "demo_int s = (if s = [] then None else map_option int (parse_digits s 0))"

definition demo_str :: "json \<Rightarrow> string" where
  "demo_str v =
     (case v of
        JInt n \<Rightarrow> decimal n
      | JStr s \<Rightarrow> s
      | JBool b \<Rightarrow> (if b then ''True'' else ''False'')
      | _ \<Rightarrow> ''None'')"

definition item :: "int \<Rightarrow> string \<Rightarrow> json" where
  "item i n = JObj [(''id'', JInt i), (''name'', JStr n)]"

definition page :: "json list \<Rightarrow> int \<Rightarrow> json" where
  "page xs n = JObj [(''count'', JInt n), (''next'', JNull), (''results'', JList xs)]"

definition engineering_links :: json where
  "engineering_links =
     JObj [(''projects'', JStr ''https://aap.test/api/v2/organizations/5/projects/''),
           (''credentials'', JStr ''https://aap.test/api/v2/organizations/5/credentials/'')]"

definition engineering :: json where
  "engineering =
     JObj [(''id'', JInt 5), (''name'', JStr ''Engineering''), (''description'', JStr []),
           (''related'', engineering_links)]"

definition operations :: json where
  "operations =
     JObj [(''id'', JInt 6), (''name'', JStr ''Operations''),
           (''related'', JObj
              [(''teams'', JStr ''https://aap.test/api/v2/organizations/6/teams/''),
               (''users'', JStr ''https://aap.test/api/v2/organizations/6/users/'')])]"

definition demo_http :: "string \<Rightarrow> response" where
  "demo_http url =
     (case map_of
        [(''https://aap.test/api/v2/organizations/5/'', Body engineering),
         (''https://aap.test/api/v2/organizations/6/'', Body operations),
         (''https://aap.test/api/v2/organizations/?name=Engineering'',
            Body (page [engineering] 1)),
         (''https://aap.test/api/v2/organizations/?name=not-found-org'', Body (page [] 0)),
         (''https://aap.test/api/v2/organizations/5/projects/'',
            Body (page [item 11 ''p1'', item 12 ''p2'', item 13 ''p3'', item 14 ''p4'',
                        item 15 ''p5'', item 16 ''p6'', item 17 ''p7''] 7)),
         (''https://aap.test/api/v2/organizations/5/credentials/'',
            Body (page [item 40 ''c40'', item 41 ''c41'', item 42 ''c42'', item 43 ''c43''] 4)),
         (''https://aap.test/api/v2/credentials/40/'',
            Body (JObj [(''id'', JInt 40), (''organization'', JInt 5)])),
         (''https://aap.test/api/v2/credentials/41/'',
            Body (JObj [(''id'', JInt 41), (''organization'', JInt 0)])),
         (''https://aap.test/api/v2/credentials/42/'',
            Body (JObj [(''id'', JInt 42), (''organization'', JInt 9)])),
         (''https://aap.test/api/v2/credentials/43/'',
            Body (JObj [(''id'', JInt 43), (''organization'', JNull)])),
         (''https://aap.test/api/v2/organizations/6/users/'',
            Body (page [JObj [(''id'', JInt 2), (''username'', JStr ''admin'')]] 1)),
         (''https://aap.test/api/v2/organizations/6/teams/'',
            Failure (Some ''Internal Server Error''))]
        url of
        Some r \<Rightarrow> r
      | None \<Rightarrow> Failure (Some ''Not Found''))"

definition demo_env :: env where
  "demo_env =
     \<lparr>py_int = demo_int, py_str = demo_str,
      urljoin = (\<lambda>base endpoint. base @ endpoint), http = demo_http\<rparr>"

definition demo_client :: client where
  "demo_client = AAPClient ''https://aap.test/''"

definition entry :: "int \<Rightarrow> string \<Rightarrow> summary" where
  "entry i n = \<lparr>summary_id = JInt i, summary_name = JStr n\<rparr>"

definition demo_deps :: dependency_map where
  "demo_deps =
     \<lparr>by_type =
        [(''projects'', [entry 11 ''p1'', entry 12 ''p2'', entry 13 ''p3'', entry 14 ''p4'',
                        entry 15 ''p5'']),
         (''credentials'', [entry 40 ''c40'', entry 41 ''c41'', entry 42 ''c42'',
                           entry 43 ''c43''])],
      cross_org_credentials = Some [(entry 42 ''c42'', JInt 9)]\<rparr>"

section \<open>Evaluating the sample installation\<close>

declare digits.simps [simp del]

lemmas run_defs =
  main_def inspect_organization_def resolve_organization_def get_organization_by_id_def
  get_organization_by_name_def display_org_details_def important_fields_def
  find_dependencies_def andthen_def lift_def ret_def emit_def get_def
  get_related_data_def py_split_def lstrip_def rstrip_def AAPClient_def
  type_step_def try_fetch_def preview_page_def store_def check_credentials_def
  check_credential_def credential_endpoint_def foreign_owner_def add_cross_org_def
  no_dependencies_def resource_types_def export_to_json_def

lemmas demo_defs =
  demo_env_def demo_client_def demo_http_def demo_str_def demo_int_def digit_value_def
  decimal_def digits.simps item_def page_def engineering_def engineering_links_def
  operations_def entry_def demo_deps_def


lemma demo_run: "snd (find_dependencies demo_env demo_client engineering) = Ok demo_deps"
  by (simp add: run_defs demo_defs)

lemma demo_related: "py_get engineering ''related'' (JObj []) = Inr engineering_links"
  by (simp add: engineering_def)

lemma demo_detail:
  "credential_detail demo_env demo_client (entry 40 ''c40'') =
     Body (JObj [(''id'', JInt 40), (''organization'', JInt 5)])"
  "credential_detail demo_env demo_client (entry 41 ''c41'') =
     Body (JObj [(''id'', JInt 41), (''organization'', JInt 0)])"
  "credential_detail demo_env demo_client (entry 42 ''c42'') =
     Body (JObj [(''id'', JInt 42), (''organization'', JInt 9)])"
  "credential_detail demo_env demo_client (entry 43 ''c43'') =
     Body (JObj [(''id'', JInt 43), (''organization'', JNull)])"
  by (simp_all add: credential_detail_def credential_endpoint_def AAPClient_def rstrip_def
        demo_defs)

section \<open>Resolving the organization\<close>






section \<open>An organization that is not found\<close>

text \<open>
  C7. When the identifier is not a number and the name query returns an empty result
  list, the run prints that the organization was not found on the error stream and
  ends with status 1. The request and that line are all it does: no file is written,
  whatever \<^verbatim>\<open>--export\<close> was given.
\<close>

theorem not_found_exits_without_export:
  assumes "py_int E (arg_organization a) = None"
    and "http E (urljoin E (api_base (AAPClient (arg_url a)))
                   (''organizations/?name='' @ arg_organization a)) = Body response"
    and "py_get response ''results'' (JList []) = Inr (JList [])"
  shows "main E a =
           ([Request (urljoin E (api_base (AAPClient (arg_url a)))
                        (''organizations/?name='' @ arg_organization a)),
             Stderr (OrgNotFound (arg_organization a))], 1) \<and>
         snd (main E a) = 1 \<and>
         Stderr (OrgNotFound (arg_organization a)) \<in> set (fst (main E a)) \<and>
         (\<forall>filename content. FileWrite filename content \<notin> set (fst (main E a)))"
  using assms
  by (simp add: main_def inspect_organization_def resolve_organization_def
        get_organization_by_name_def andthen_def lift_def ret_def get_def)

theorem not_found_exits_without_export_witness:
  "py_int demo_env ''not-found-org'' = None \<and>
   main demo_env \<lparr>arg_organization = ''not-found-org'', arg_url = ''https://aap.test/'',
                  arg_export = Some ''report.json''\<rparr> =
     ([Request ''https://aap.test/api/v2/organizations/?name=not-found-org'',
       Stderr (OrgNotFound ''not-found-org'')], 1)"
proof -
  let ?a = "\<lparr>arg_organization = ''not-found-org'', arg_url = ''https://aap.test/'',
             arg_export = Some ''report.json''\<rparr>"
  have base: "api_base (AAPClient (arg_url ?a)) = ''https://aap.test/api/v2/''"
    by (simp add: AAPClient_def rstrip_def)
  have h1: "py_int demo_env (arg_organization ?a) = None"
    by (simp add: demo_defs)
  have h2: "http demo_env (urljoin demo_env (api_base (AAPClient (arg_url ?a)))
                   (''organizations/?name='' @ arg_organization ?a)) = Body (page [] 0)"
    unfolding base by (simp add: demo_env_def demo_http_def)
  have h3: "py_get (page [] 0) ''results'' (JList []) = Inr (JList [])"
    by (simp add: page_def)
  have u: "\<And>b e. urljoin demo_env b e = b @ e"
    by (simp add: demo_env_def)
  from not_found_exits_without_export [OF h1 h2 h3]
  have "main demo_env ?a =
          ([Request (urljoin demo_env (api_base (AAPClient (arg_url ?a)))
                       (''organizations/?name='' @ arg_organization ?a)),
            Stderr (OrgNotFound (arg_organization ?a))], 1)"
    by blast
  with h1 show ?thesis
    unfolding base u by simp
qed

section \<open>Fetching a related link\<close>

lemma split_from_no_marker: "\<not> contains sep s \<Longrightarrow> split_from sep cur s = [cur @ s]"
  by (induction s arbitrary: cur) auto

lemma spec_suffix_after_None: "spec_suffix_after sep s = None \<longleftrightarrow> \<not> contains sep s"
  by (induction s) auto

lemma split_from_first_marker:
  "spec_suffix_after sep s = Some suf \<Longrightarrow> sep \<noteq> [] \<Longrightarrow>
     \<exists>pre. split_from sep cur s = (cur @ pre) # split_from sep [] suf"
proof (induction s arbitrary: cur)
  case Nil
  then show ?case by simp
next
  case (Cons ch s)
  show ?case
  proof (cases "prefix sep (ch # s)")
    case True
    from Cons.prems(2) have "drop (length sep) (ch # s) = drop (length sep - 1) s"
      by (cases sep) auto
    with True Cons.prems show ?thesis by auto
  next
    case False
    with Cons.prems have "spec_suffix_after sep s = Some suf" by simp
    from Cons.IH [OF this Cons.prems(2), of "cur @ [ch]"] False show ?thesis by auto
  qed
qed

text \<open>
  What does hold of \<^verbatim>\<open>get_related_data\<close>: for an absolute URL in which the marker
  occurs once, the suffix after it is requested; without the marker nothing is
  requested and the result is \<^verbatim>\<open>None\<close>; a relative path is requested with its leading
  slashes stripped.
\<close>

lemma related_data_cases:
  "(prefix ''http'' s \<and> spec_suffix_after ''/api/v2/'' s = Some suf \<and>
    \<not> contains ''/api/v2/'' suf \<longrightarrow>
      get_related_data E c (JStr s) = get E c suf) \<and>
   (prefix ''http'' s \<and> \<not> contains ''/api/v2/'' s \<longrightarrow>
      get_related_data E c (JStr s) = ([], Ok JNull)) \<and>
   (\<not> prefix ''http'' s \<longrightarrow>
      get_related_data E c (JStr s) = get E c (lstrip (CHR ''/'') s))"
proof (intro conjI impI)
  assume a: "prefix ''http'' s \<and> spec_suffix_after ''/api/v2/'' s = Some suf \<and>
             \<not> contains ''/api/v2/'' suf"
  then obtain pre where
    "split_from ''/api/v2/'' [] s = ([] @ pre) # split_from ''/api/v2/'' [] suf"
    using split_from_first_marker [of "''/api/v2/''" s suf "[]"] by auto
  with a have "py_split ''/api/v2/'' s = [pre, suf]"
    by (simp add: py_split_def split_from_no_marker)
  with a show "get_related_data E c (JStr s) = get E c suf"
    by (simp add: get_related_data_def)
next
  assume "prefix ''http'' s \<and> \<not> contains ''/api/v2/'' s"
  then show "get_related_data E c (JStr s) = ([], Ok JNull)"
    by (simp add: get_related_data_def py_split_def split_from_no_marker ret_def)
next
  assume "\<not> prefix ''http'' s"
  then show "get_related_data E c (JStr s) = get E c (lstrip (CHR ''/'') s)"
    by (simp add: get_related_data_def)
qed

text \<open>
  C5. The comment in \<^verbatim>\<open>get_related_data\<close> and the specification say that for an
  absolute URL the path after \<^verbatim>\<open>/api/v2/\<close> is requested. The code takes the second
  piece of \<^verbatim>\<open>split('/api/v2/')\<close>, which ends where the marker occurs again: for the
  URL below it requests \<^verbatim>\<open>teams/?next=\<close>, which is no suffix of the URL, while the
  suffix after the marker is \<^verbatim>\<open>teams/?next=/api/v2/teams/?page=2\<close>.
\<close>

theorem related_data_second_marker:
  "get_related_data E c (JStr ''https://aap.test/api/v2/teams/?next=/api/v2/teams/?page=2'') =
     get E c ''teams/?next='' \<and>
   spec_suffix_after ''/api/v2/'' ''https://aap.test/api/v2/teams/?next=/api/v2/teams/?page=2'' =
     Some ''teams/?next=/api/v2/teams/?page=2'' \<and>
   \<not> suffix ''teams/?next='' ''https://aap.test/api/v2/teams/?next=/api/v2/teams/?page=2''"
  by (simp add: get_related_data_def py_split_def suffix_to_prefix)

section \<open>The traversal\<close>

lemma andthen_snd_Ok:
  "snd (andthen m f) = Ok y \<longleftrightarrow> (\<exists>x. snd m = Ok x \<and> snd (f x) = Ok y)"
  by (cases m; cases "snd m") (auto simp: andthen_def split: prod.splits)

lemma andthen_unit [simp]: "andthen ([], Ok x) f = f x"
  by (simp add: andthen_def split: prod.splits)

lemma type_step_Ok:
  "snd (type_step E c rel t deps) = Ok deps' \<Longrightarrow> deps' = settled_step E c rel t deps"
  by (cases t)
     (auto simp: type_step_def settled_step_def stored_for_def Let_def
           split: sum.splits if_splits prod.splits outcome.splits)

lemma types_loop_Ok:
  "snd (types_loop E c rel ts deps) = Ok deps' \<Longrightarrow> deps' = fold (settled_step E c rel) ts deps"
proof (induction ts arbitrary: deps)
  case Nil
  then show ?case by (simp add: ret_def)
next
  case (Cons t ts)
  from Cons.prems obtain d where
    s: "snd (type_step E c rel t deps) = Ok d" and l: "snd (types_loop E c rel ts d) = Ok deps'"
    by (auto simp: andthen_snd_Ok)
  from type_step_Ok [OF s] Cons.IH [OF l] show ?case by simp
qed

lemma fold_settled_cross:
  "cross_org_credentials (fold (settled_step E c rel) ts deps) = cross_org_credentials deps"
  by (induction ts arbitrary: deps) (auto simp: settled_step_def store_def split: option.splits)

lemma fold_settled_keys:
  "fst ` set (by_type (fold (settled_step E c rel) ts deps)) =
     fst ` set (by_type deps) \<union>
     {f \<in> fst ` set ts. py_in f rel = Inr True \<and> stored_for E c rel f \<noteq> None}"
proof (induction ts arbitrary: deps)
  case Nil
  then show ?case by simp
next
  case (Cons t ts)
  show ?case
    unfolding fold_simps Cons.IH
    by (auto simp: settled_step_def store_def dom_update split: option.splits)
qed

lemma set_update_cases:
  "(k', v') \<in> set (AList.update k v al) \<Longrightarrow> (k', v') = (k, v) \<or> (k', v') \<in> set al"
  by (induction al) (auto split: if_splits)

lemma fold_settled_entries:
  "(k, xs) \<in> set (by_type (fold (settled_step E c rel) ts deps)) \<Longrightarrow>
     (k, xs) \<in> set (by_type deps) \<or> stored_for E c rel k = Some xs"
proof (induction ts arbitrary: deps)
  case Nil
  then show ?case by simp
next
  case (Cons t ts)
  from Cons.IH [of "settled_step E c rel t deps"] Cons.prems
  have "(k, xs) \<in> set (by_type (settled_step E c rel t deps)) \<or> stored_for E c rel k = Some xs"
    by simp
  then show ?case
    by (auto simp: settled_step_def store_def split: option.splits if_splits dest: set_update_cases)
qed

lemma preview_items_length:
  "preview_items items acc = (evs, xs, err) \<Longrightarrow> length xs \<le> length acc + length items"
proof (induction items arbitrary: acc evs xs err)
  case Nil
  then show ?case by simp
next
  case (Cons item items)
  then show ?case
    by (fastforce split: sum.splits prod.splits)
qed

lemma py_slice_length: "py_slice n v = Inr items \<Longrightarrow> length items \<le> n"
  by (cases v) auto

lemma preview_page_length:
  "preview_page data = (evs, Some xs, r) \<Longrightarrow> length xs \<le> 5"
  by (auto simp: preview_page_def split: sum.splits option.splits if_splits prod.splits
           dest!: preview_items_length py_slice_length)

lemma stored_for_length: "stored_for E c rel f = Some xs \<Longrightarrow> length xs \<le> 5"
  unfolding stored_for_def try_fetch_def
  by (auto split: sum.splits prod.splits outcome.splits dest: preview_page_length)

lemma preview_page_stored:
  "fst (snd (preview_page data)) \<noteq> None \<longleftrightarrow>
     (\<exists>count n. py_get data ''count'' (JInt 0) = Inr count \<and> int_value count = Some n \<and>
                0 < n \<and> py_in ''results'' data = Inr True)"
  by (auto simp: preview_page_def split: sum.splits option.splits if_splits prod.splits)

lemma stored_for_iff:
  "stored_for E c rel f \<noteq> None \<longleftrightarrow>
     (\<exists>link data count n.
        py_getitem rel f = Inr link \<and> snd (get_related_data E c link) = Ok data \<and>
        py_get data ''count'' (JInt 0) = Inr count \<and> int_value count = Some n \<and>
        0 < n \<and> py_in ''results'' data = Inr True)"
proof (cases "py_getitem rel f")
  case (Inl e)
  then show ?thesis by (simp add: stored_for_def try_fetch_def)
next
  case (Inr link)
  show ?thesis
  proof (cases "get_related_data E c link")
    case (Pair evs r)
    show ?thesis
    proof (cases r)
      case (Ok data)
      with Inr Pair have "stored_for E c rel f = fst (snd (preview_page data))"
        by (simp add: stored_for_def try_fetch_def split: prod.splits)
      with Inr Pair Ok preview_page_stored [of data] show ?thesis by auto
    qed (use Inr Pair in \<open>simp_all add: stored_for_def try_fetch_def\<close>)
  qed
qed

subsection \<open>What a run that returns has done\<close>

lemma mismatches_Cons:
  "mismatches E c org (cred # creds) =
     (case mismatch E c org cred of None \<Rightarrow> [] | Some owner \<Rightarrow> [(cred, owner)]) @
     mismatches E c org creds"
  by (simp add: mismatches_def)

lemma mismatches_Nil [simp]: "mismatches E c org [] = []"
  by (simp add: mismatches_def)

lemma mismatches_iff:
  "(cred, owner) \<in> set (mismatches E c org creds) \<longleftrightarrow>
     cred \<in> set creds \<and> mismatch E c org cred = Some owner"
  by (induction creds) (auto simp: mismatches_Cons split: option.splits)

lemma mismatches_length: "length (mismatches E c org creds) \<le> length creds"
  by (induction creds) (auto simp: mismatches_Cons split: option.splits)

lemma check_credential_Ok:
  "snd (check_credential E c org cred deps) = Ok deps' \<Longrightarrow>
     deps' = (case mismatch E c org cred of None \<Rightarrow> deps | Some owner \<Rightarrow> add_cross_org cred owner deps)"
  by (auto simp: check_credential_def mismatch_def credential_detail_def get_def Let_def
           split: response.splits sum.splits option.splits)

lemma credentials_loop_Ok:
  "snd (credentials_loop E c org creds deps) = Ok deps' \<Longrightarrow>
     by_type deps' = by_type deps \<and>
     cross_org_credentials deps' =
       (if mismatches E c org creds = [] then cross_org_credentials deps
        else Some (cross_org_list deps @ mismatches E c org creds))"
proof (induction creds arbitrary: deps)
  case Nil
  then show ?case by (simp add: ret_def)
next
  case (Cons cred creds)
  from Cons.prems obtain d where
    s: "snd (check_credential E c org cred deps) = Ok d"
    and l: "snd (credentials_loop E c org creds d) = Ok deps'"
    by (auto simp: andthen_snd_Ok)
  note d = check_credential_Ok [OF s]
  note ih = Cons.IH [OF l]
  show ?case
  proof (cases "mismatch E c org cred")
    case None
    with d ih show ?thesis by (simp add: mismatches_Cons)
  next
    case (Some owner)
    with d have "by_type d = by_type deps"
      and "cross_org_credentials d = Some (cross_org_list deps @ [(cred, owner)])"
      and "cross_org_list d = cross_org_list deps @ [(cred, owner)]"
      by (simp_all add: add_cross_org_def cross_org_list_def)
    with ih Some show ?thesis by (simp add: mismatches_Cons)
  qed
qed

lemma check_credentials_Ok:
  assumes "snd (check_credentials E c org deps) = Ok deps'"
  shows "by_type deps' = by_type deps \<and>
     cross_org_credentials deps' =
       (if mismatches E c org (credentials_preview deps) = [] then cross_org_credentials deps
        else Some (cross_org_list deps @ mismatches E c org (credentials_preview deps)))"
proof (cases "map_of (by_type deps) ''credentials''")
  case None
  with assms show ?thesis
    by (simp add: check_credentials_def credentials_preview_def ret_def)
next
  case (Some creds)
  with assms have "snd (credentials_loop E c org creds deps) = Ok deps'"
    by (simp add: check_credentials_def emit_def andthen_def split: prod.splits)
  from credentials_loop_Ok [OF this] Some show ?thesis
    by (simp add: credentials_preview_def)
qed

lemma find_dependencies_Ok:
  assumes "snd (find_dependencies E c org) = Ok deps"
  shows "\<exists>rel. py_get org ''related'' (JObj []) = Inr rel \<and>
     by_type deps = by_type (fold (settled_step E c rel) resource_types no_dependencies) \<and>
     cross_org_credentials deps =
       (if mismatches E c org (credentials_preview deps) = [] then None
        else Some (mismatches E c org (credentials_preview deps)))"
proof -
  from assms obtain rel d where
    rel: "py_get org ''related'' (JObj []) = Inr rel"
    and loop: "snd (types_loop E c rel resource_types no_dependencies) = Ok d"
    and chk: "snd (check_credentials E c org d) = Ok deps"
    by (auto simp: find_dependencies_def andthen_snd_Ok emit_def lift_def ret_def split: sum.splits)
  from types_loop_Ok [OF loop] have d: "d = fold (settled_step E c rel) resource_types no_dependencies" .
  then have dc: "cross_org_credentials d = None"
    by (simp add: fold_settled_cross no_dependencies_def)
  from check_credentials_Ok [OF chk] have bt: "by_type deps = by_type d"
    and cr: "cross_org_credentials deps =
       (if mismatches E c org (credentials_preview d) = [] then cross_org_credentials d
        else Some (cross_org_list d @ mismatches E c org (credentials_preview d)))"
    by simp_all
  from bt have pv: "credentials_preview deps = credentials_preview d"
    by (simp add: credentials_preview_def)
  from dc have "cross_org_list d = []" by (simp add: cross_org_list_def)
  with rel bt cr dc pv d show ?thesis by auto
qed

text \<open>
  The dependencies of a report are those the traversal returns for the organization
  of the report, and the keys counted below are the keys of the exported dict.
\<close>

lemma report_dependencies:
  assumes "snd (inspect_organization E c s) = Ok r"
  shows "snd (resolve_organization E c s) = Ok (organization r) \<and>
         snd (find_dependencies E c (organization r)) = Ok (dependencies r)"
  using assms
  by (auto simp: inspect_organization_def andthen_snd_Ok emit_def lift_def ret_def
           split: if_splits sum.splits)

lemma dep_keys_json: "dependencies_json deps = JObj kvs \<Longrightarrow> dep_keys deps = fst ` set kvs"
  by (force simp: dependencies_json_def dep_keys_def image_Un image_image split_beta
            split: option.splits)

lemma catalogue_not_cross: "t \<in> set resource_types \<Longrightarrow> fst t \<noteq> ''cross_org_credentials''"
  by (auto simp: resource_types_def)

lemma type_step_absent:
  "py_in (fst t) rel = Inr False \<Longrightarrow> type_step E c rel t deps = ([], Ok deps)"
  by (cases t) (simp add: type_step_def)

lemma dependency_keys:
  assumes "snd (find_dependencies E c org) = Ok deps"
    and "py_get org ''related'' (JObj []) = Inr rel"
  shows "fst ` set (by_type deps) =
           {f \<in> fst ` set resource_types. py_in f rel = Inr True \<and> stored_for E c rel f \<noteq> None}"
proof -
  from find_dependencies_Ok [OF assms(1)] assms(2)
  have "by_type deps = by_type (fold (settled_step E c rel) resource_types no_dependencies)"
    by auto
  then show ?thesis
    by (simp add: fold_settled_keys no_dependencies_def)
qed

subsection \<open>A request that fails\<close>

lemma type_step_not_raised:
  "py_in (fst t) rel = Inr b \<Longrightarrow> snd (type_step E c rel t deps) \<noteq> Raised e"
  by (cases t)
     (auto simp: type_step_def Let_def split: sum.splits if_splits prod.splits outcome.splits)

lemma get_related_data_no_exit:
  assumes "\<forall>url. \<exists>j. http E url = Body j"
  shows "snd (get_related_data E c link) \<noteq> Exit n"
proof -
  have g: "snd (get E c ep) \<noteq> Exit n" for ep
  proof -
    from assms obtain j where "http E (urljoin E (api_base c) ep) = Body j" by blast
    then show ?thesis by (simp add: get_def)
  qed
  show ?thesis
    by (auto simp: get_related_data_def g ret_def split: json.splits list.splits)
qed

lemma preview_page_no_exit: "snd (snd (preview_page data)) \<noteq> Exit n"
  by (auto simp: preview_page_def split: sum.splits option.splits prod.splits)

lemma try_fetch_no_exit:
  assumes "\<forall>url. \<exists>j. http E url = Body j"
  shows "snd (snd (try_fetch E c rel f)) \<noteq> Exit n"
proof (cases "py_getitem rel f")
  case (Inl e)
  then show ?thesis by (simp add: try_fetch_def)
next
  case (Inr link)
  obtain evs r where g: "get_related_data E c link = (evs, r)"
    by (cases "get_related_data E c link")
  with get_related_data_no_exit [OF assms, of c link n] have r: "r \<noteq> Exit n" by simp
  show ?thesis
  proof (cases r)
    case (Ok data)
    obtain evs' stored r' where p: "preview_page data = (evs', stored, r')"
      by (cases "preview_page data")
    with preview_page_no_exit [of data n] have "r' \<noteq> Exit n" by simp
    with Inr g Ok p show ?thesis by (simp add: try_fetch_def)
  qed (use Inr g r in \<open>simp_all add: try_fetch_def\<close>)
qed

lemma type_step_completes:
  assumes "\<forall>url. \<exists>j. http E url = Body j" and "py_in (fst t) rel = Inr b"
  shows "\<exists>evs deps'. type_step E c rel t deps = (evs, Ok deps')"
proof -
  obtain evs stored r where f: "try_fetch E c rel (fst t) = (evs, stored, r)"
    by (cases "try_fetch E c rel (fst t)")
  with try_fetch_no_exit [OF assms(1), of c rel "fst t"] have "\<And>n. r \<noteq> Exit n" by simp
  with assms(2) f show ?thesis
    by (cases t; cases r) (auto simp: type_step_def Let_def)
qed

text \<open>
  What does hold of the handler: while no request fails, every iteration returns,
  whatever the pages contain, and so does the loop over the catalogue.
\<close>

lemma types_loop_completes:
  assumes "\<forall>url. \<exists>j. http E url = Body j"
  shows "\<exists>evs deps'. types_loop E c (JObj links) ts deps = (evs, Ok deps')"
proof (induction ts arbitrary: deps)
  case Nil
  show ?case by (simp add: ret_def)
next
  case (Cons t ts)
  from type_step_completes [OF assms, of t "JObj links" _ c deps]
  obtain evs d where s: "type_step E c (JObj links) t deps = (evs, Ok d)" by auto
  from Cons.IH [of d] obtain evs' d' where "types_loop E c (JObj links) ts d = (evs', Ok d')"
    by auto
  with s show ?case by (simp add: andthen_def)
qed

text \<open>
  C3. The handler of a resource type is \<^verbatim>\<open>except Exception\<close>, and its message is
  \<^verbatim>\<open>Error retrieving ...\<close>; but a request that fails never reaches it, because
  \<^verbatim>\<open>get\<close> turns every \<^verbatim>\<open>RequestException\<close> into \<^verbatim>\<open>sys.exit(1)\<close>. On the sample
  installation the teams of organization 6 cannot be listed: the traversal ends there
  with status 1, and the users, which are linked and can be listed, are never
  requested.
\<close>

theorem failed_fetch_ends_traversal:
  "find_dependencies demo_env demo_client operations =
     ([Stdout (Text ''DEPENDENCIES & RELATED RESOURCES:''),
       Stdout (Text (replicate 80 (CHR ''-''))),
       Stdout (Text []), Stdout (Text ''Teams:''),
       Request ''https://aap.test/api/v2/organizations/6/teams/'',
       Stderr (RequestError ''https://aap.test/api/v2/organizations/6/teams/''),
       Stderr (ResponseText ''Internal Server Error'')],
      Exit 1) \<and>
   py_getitem operations ''related'' =
     Inr (JObj [(''teams'', JStr ''https://aap.test/api/v2/organizations/6/teams/''),
                (''users'', JStr ''https://aap.test/api/v2/organizations/6/users/'')]) \<and>
   http demo_env ''https://aap.test/api/v2/organizations/6/users/'' =
     Body (page [JObj [(''id'', JInt 2), (''username'', JStr ''admin'')]] 1) \<and>
   snd (main demo_env \<lparr>arg_organization = ''6'', arg_url = ''https://aap.test/'',
                        arg_export = Some ''report.json''\<rparr>) = 1"
  by (simp add: run_defs demo_defs Let_def)

subsection \<open>Resource types without a link\<close>

text \<open>
  C6. For a resource type of the catalogue that \<^verbatim>\<open>field in related_fields\<close> does not
  find, the iteration does nothing at all (no request, no output, the dependencies
  unchanged), the traversal is the one of the catalogue without that type, and the
  dependencies returned have no key of that type.
\<close>

theorem absent_type_untouched:
  assumes t: "t \<in> set resource_types" and absent: "py_in (fst t) related_fields = Inr False"
  shows "(\<forall>deps. type_step E c related_fields t deps = ([], Ok deps)) \<and>
         (\<forall>ts deps. types_loop E c related_fields ts deps =
                     types_loop E c related_fields (filter (\<lambda>u. fst u \<noteq> fst t) ts) deps) \<and>
         (\<forall>org deps. py_get org ''related'' (JObj []) = Inr related_fields \<and>
                      snd (find_dependencies E c org) = Ok deps \<longrightarrow>
                      fst t \<notin> dep_keys deps)"
proof (intro conjI allI impI)
  fix deps
  show "type_step E c related_fields t deps = ([], Ok deps)"
    by (rule type_step_absent [OF absent])
next
  fix ts deps
  show "types_loop E c related_fields ts deps =
        types_loop E c related_fields (filter (\<lambda>u. fst u \<noteq> fst t) ts) deps"
  proof (induction ts arbitrary: deps)
    case Nil
    show ?case by simp
  next
    case (Cons u ts)
    show ?case
    proof (cases "fst u = fst t")
      case True
      with absent have "type_step E c related_fields u deps = ([], Ok deps)"
        by (simp add: type_step_absent)
      with True Cons.IH show ?thesis by simp
    next
      case False
      have "types_loop E c related_fields ts =
            types_loop E c related_fields (filter (\<lambda>u. fst u \<noteq> fst t) ts)"
        by (intro ext) (rule Cons.IH)
      with False show ?thesis by simp
    qed
  qed
next
  fix org deps
  assume a: "py_get org ''related'' (JObj []) = Inr related_fields \<and>
             snd (find_dependencies E c org) = Ok deps"
  then have "snd (find_dependencies E c org) = Ok deps"
    and "py_get org ''related'' (JObj []) = Inr related_fields"
    by simp_all
  then have "fst ` set (by_type deps) =
      {f \<in> fst ` set resource_types. py_in f related_fields = Inr True \<and>
                                       stored_for E c related_fields f \<noteq> None}"
    by (rule dependency_keys)
  with absent have "fst t \<notin> fst ` set (by_type deps)" by simp
  with catalogue_not_cross [OF t] show "fst t \<notin> dep_keys deps"
    by (simp add: dep_keys_def split: option.splits)
qed

theorem absent_type_untouched_witness:
  "(''teams'', ''Teams'') \<in> set resource_types \<and>
   py_in ''teams'' engineering_links = Inr False \<and>
   type_step demo_env demo_client engineering_links (''teams'', ''Teams'') no_dependencies =
     ([], Ok no_dependencies) \<and>
   snd (find_dependencies demo_env demo_client engineering) = Ok demo_deps \<and>
   ''teams'' \<notin> dep_keys demo_deps"
proof -
  have t: "(''teams'', ''Teams'') \<in> set resource_types"
    by (simp add: resource_types_def)
  have a: "py_in (fst (''teams'', ''Teams'')) engineering_links = Inr False"
    by (simp add: engineering_links_def)
  note th = absent_type_untouched [OF t a, of demo_env demo_client]
  from th have 1: "type_step demo_env demo_client engineering_links (''teams'', ''Teams'')
                     no_dependencies = ([], Ok no_dependencies)"
    by blast
  from th demo_related demo_run have 2: "fst (''teams'', ''Teams'') \<notin> dep_keys demo_deps"
    by blast
  from t a 1 2 demo_run show ?thesis by simp
qed

subsection \<open>When a key is created\<close>

text \<open>
  C10. For a resource type of the catalogue that has a link, the dependencies returned
  have a key of that type exactly when the page fetched for the link has a count
  above zero and a \<^verbatim>\<open>results\<close> field; in particular a page whose count is zero, or
  that lacks \<^verbatim>\<open>results\<close>, leaves no key.
\<close>

theorem key_only_for_nonempty_page:
  assumes run: "snd (find_dependencies E c org) = Ok deps"
    and rel: "py_get org ''related'' (JObj []) = Inr related_fields"
    and t: "t \<in> set resource_types"
    and present: "py_in (fst t) related_fields = Inr True"
  shows "(fst t \<in> dep_keys deps \<longleftrightarrow>
            (\<exists>link data count n.
               py_getitem related_fields (fst t) = Inr link \<and>
               snd (get_related_data E c link) = Ok data \<and>
               py_get data ''count'' (JInt 0) = Inr count \<and> int_value count = Some n \<and>
               0 < n \<and> py_in ''results'' data = Inr True)) \<and>
         (\<forall>link data.
            py_getitem related_fields (fst t) = Inr link \<and>
            snd (get_related_data E c link) = Ok data \<and>
            (py_get data ''count'' (JInt 0) = Inr (JInt 0) \<or> py_in ''results'' data = Inr False)
            \<longrightarrow> fst t \<notin> dep_keys deps)"
proof -
  from catalogue_not_cross [OF t]
  have "fst t \<in> dep_keys deps \<longleftrightarrow> fst t \<in> fst ` set (by_type deps)"
    by (auto simp: dep_keys_def split: option.splits)
  also from t present have "\<dots> \<longleftrightarrow> stored_for E c related_fields (fst t) \<noteq> None"
    unfolding dependency_keys [OF run rel] by auto
  finally have key: "fst t \<in> dep_keys deps \<longleftrightarrow> stored_for E c related_fields (fst t) \<noteq> None" .
  show ?thesis
    unfolding key stored_for_iff by auto
qed

theorem key_only_for_nonempty_page_witness:
  "snd (find_dependencies demo_env demo_client engineering) = Ok demo_deps \<and>
   (''projects'', ''Projects'') \<in> set resource_types \<and>
   py_in ''projects'' engineering_links = Inr True \<and>
   ''projects'' \<in> dep_keys demo_deps \<and>
   (\<exists>link data count n.
      py_getitem engineering_links ''projects'' = Inr link \<and>
      snd (get_related_data demo_env demo_client link) = Ok data \<and>
      py_get data ''count'' (JInt 0) = Inr count \<and> int_value count = Some n \<and>
      0 < n \<and> py_in ''results'' data = Inr True)"
proof -
  have t: "(''projects'', ''Projects'') \<in> set resource_types"
    by (simp add: resource_types_def)
  have p: "py_in (fst (''projects'', ''Projects'')) engineering_links = Inr True"
    by (simp add: engineering_links_def)
  have k: "''projects'' \<in> dep_keys demo_deps"
    by (simp add: dep_keys_def demo_deps_def)
  from key_only_for_nonempty_page [OF demo_run demo_related t p] k
  have "\<exists>link data count n.
      py_getitem engineering_links ''projects'' = Inr link \<and>
      snd (get_related_data demo_env demo_client link) = Ok data \<and>
      py_get data ''count'' (JInt 0) = Inr count \<and> int_value count = Some n \<and>
      0 < n \<and> py_in ''results'' data = Inr True"
    by simp
  with demo_run t p k show ?thesis by simp
qed

subsection \<open>How many keys, how many items\<close>

text \<open>
  C4, as amended. When \<open>N\<close> resource types of the catalogue are found in the related
  links, the keys of the dependencies returned are among those \<open>N\<close> types and
  \<^verbatim>\<open>cross_org_credentials\<close>: at most \<open>N\<close> keys when no credential of another
  organization was found, at most \<open>N + 1\<close> otherwise. The list under each key, that of
  \<^verbatim>\<open>cross_org_credentials\<close> included, has at most 5 items, whatever count the page
  reports.
\<close>

theorem keys_and_previews_bounded:
  assumes run: "snd (find_dependencies E c org) = Ok deps"
    and rel: "py_get org ''related'' (JObj []) = Inr related_fields"
  shows "dep_keys deps \<subseteq>
           insert ''cross_org_credentials'' (fst ` set (present_types related_fields)) \<and>
         card (dep_keys deps) \<le>
           length (present_types related_fields) +
           (if cross_org_credentials deps = None then 0 else 1) \<and>
         (\<forall>k xs. map_of (by_type deps) k = Some xs \<longrightarrow> length xs \<le> 5) \<and>
         length (cross_org_list deps) \<le> 5"
proof -
  let ?P = "fst ` set (present_types related_fields)"
  have keys: "fst ` set (by_type deps) \<subseteq> ?P"
    unfolding dependency_keys [OF run rel] by (auto simp: present_types_def)
  have cardP: "card ?P \<le> length (present_types related_fields)"
    by (metis card_image_le card_length le_trans List.finite_set)
  from keys have cardK: "card (fst ` set (by_type deps)) \<le> card ?P"
    by (simp add: card_mono)
  have 1: "dep_keys deps \<subseteq> insert ''cross_org_credentials'' ?P"
    using keys by (auto simp: dep_keys_def split: option.splits)
  have 2: "card (dep_keys deps) \<le>
           length (present_types related_fields) +
           (if cross_org_credentials deps = None then 0 else 1)"
  proof (cases "cross_org_credentials deps")
    case None
    then have "dep_keys deps = fst ` set (by_type deps)" by (simp add: dep_keys_def)
    with cardK cardP None show ?thesis by simp
  next
    case (Some xs)
    then have "dep_keys deps = insert ''cross_org_credentials'' (fst ` set (by_type deps))"
      by (simp add: dep_keys_def)
    then have "card (dep_keys deps) \<le> Suc (card (fst ` set (by_type deps)))"
      by (simp add: card_insert_le_m1 card_insert_if)
    with cardK cardP Some show ?thesis by simp
  qed
  from find_dependencies_Ok [OF run] rel
  have bt: "by_type deps = by_type (fold (settled_step E c related_fields) resource_types no_dependencies)"
    and cr: "cross_org_credentials deps =
       (if mismatches E c org (credentials_preview deps) = [] then None
        else Some (mismatches E c org (credentials_preview deps)))"
    by auto
  have 3: "length xs \<le> 5" if "map_of (by_type deps) k = Some xs" for k xs
  proof -
    from that have "(k, xs) \<in> set (by_type deps)" by (rule map_of_SomeD)
    with bt fold_settled_entries [of k xs E c related_fields resource_types no_dependencies]
    have "stored_for E c related_fields k = Some xs"
      by (simp add: no_dependencies_def)
    then show ?thesis by (rule stored_for_length)
  qed
  have "length (credentials_preview deps) \<le> 5"
    by (auto simp: credentials_preview_def 3 split: option.splits)
  with mismatches_length [of E c org "credentials_preview deps"] cr
  have 4: "length (cross_org_list deps) \<le> 5"
    by (auto simp: cross_org_list_def split: if_splits)
  from 1 2 3 4 show ?thesis by blast
qed

theorem keys_and_previews_bounded_witness:
  "snd (find_dependencies demo_env demo_client engineering) = Ok demo_deps \<and>
   py_get engineering ''related'' (JObj []) = Inr engineering_links \<and>
   card (dep_keys demo_deps) \<le> length (present_types engineering_links) + 1 \<and>
   length (credentials_preview demo_deps) \<le> 5 \<and>
   length (cross_org_list demo_deps) \<le> 5"
proof -
  note th = keys_and_previews_bounded [OF demo_run demo_related]
  have c: "cross_org_credentials demo_deps \<noteq> None"
    by (simp add: demo_deps_def)
  from th c have 1: "card (dep_keys demo_deps) \<le> length (present_types engineering_links) + 1"
    by simp
  have "map_of (by_type demo_deps) ''credentials'' = Some (credentials_preview demo_deps)"
    by (simp add: demo_deps_def credentials_preview_def)
  with th have 2: "length (credentials_preview demo_deps) \<le> 5"
    by blast
  from th have 3: "length (cross_org_list demo_deps) \<le> 5"
    by blast
  from demo_run demo_related 1 2 3 show ?thesis by simp
qed

text \<open>
  C4 as stated fails: organization 5 of the sample installation has two resource types
  in its related links, and the dependencies returned for it have three keys.
\<close>

theorem more_keys_than_types:
  "snd (find_dependencies demo_env demo_client engineering) = Ok demo_deps \<and>
   py_get engineering ''related'' (JObj []) = Inr engineering_links \<and>
   length (present_types engineering_links) = 2 \<and>
   card (dep_keys demo_deps) = 3"
proof -
  have "length (present_types engineering_links) = 2"
    by (simp add: present_types_def resource_types_def engineering_links_def)
  moreover have "card (dep_keys demo_deps) = 3"
    by (simp add: dep_keys_def demo_deps_def)
  ultimately show ?thesis using demo_run demo_related by simp
qed

section \<open>Credentials of another organization\<close>



lemma cross_org_list_run:
  assumes "snd (find_dependencies E c org) = Ok deps"
  shows "cross_org_list deps = mismatches E c org (credentials_preview deps)"
    and "cross_org_credentials deps \<noteq> None \<longleftrightarrow> mismatches E c org (credentials_preview deps) \<noteq> []"
  using find_dependencies_Ok [OF assms] by (auto simp: cross_org_list_def)




text \<open>
  C9. When the detail record of a credential has no owner, or the owner \<^verbatim>\<open>None\<close> or 0,
  the check of that credential sends its request and does nothing else: it prints no
  warning and leaves the dependencies as they are. Whatever the organization
  inspected, the list of \<^verbatim>\<open>cross_org_credentials\<close> returned has no entry for that
  credential.
\<close>

theorem falsy_owner_never_flagged:
  assumes detail: "credential_detail E c cred = Body (JObj kvs)"
    and owner: "map_of kvs ''organization'' = None \<or>
                map_of kvs ''organization'' = Some JNull \<or>
                map_of kvs ''organization'' = Some (JInt 0)"
  shows "(\<forall>org deps. check_credential E c org cred deps =
            ([Request (urljoin E (api_base c) (credential_endpoint E cred))], Ok deps)) \<and>
         (\<forall>org deps. snd (find_dependencies E c org) = Ok deps \<longrightarrow>
            cred \<notin> fst ` set (cross_org_list deps))"
proof (intro conjI allI impI)
  from owner have f: "\<And>org. foreign_owner (JObj kvs) org = Inr None"
    by (auto simp: foreign_owner_def)
  fix org deps
  from detail f show "check_credential E c org cred deps =
            ([Request (urljoin E (api_base c) (credential_endpoint E cred))], Ok deps)"
    by (simp add: check_credential_def credential_detail_def get_def)
  from detail f have m: "mismatch E c org cred = None"
    by (simp add: mismatch_def)
  assume "snd (find_dependencies E c org) = Ok deps"
  from cross_org_list_run(1) [OF this] m show "cred \<notin> fst ` set (cross_org_list deps)"
    by (auto simp: mismatches_iff)
qed

theorem falsy_owner_never_flagged_witness:
  "credential_detail demo_env demo_client (entry 43 ''c43'') =
     Body (JObj [(''id'', JInt 43), (''organization'', JNull)]) \<and>
   check_credential demo_env demo_client engineering (entry 43 ''c43'') demo_deps =
     ([Request ''https://aap.test/api/v2/credentials/43/''], Ok demo_deps) \<and>
   credential_detail demo_env demo_client (entry 41 ''c41'') =
     Body (JObj [(''id'', JInt 41), (''organization'', JInt 0)]) \<and>
   check_credential demo_env demo_client engineering (entry 41 ''c41'') demo_deps =
     ([Request ''https://aap.test/api/v2/credentials/41/''], Ok demo_deps) \<and>
   snd (find_dependencies demo_env demo_client engineering) = Ok demo_deps \<and>
   entry 43 ''c43'' \<notin> fst ` set (cross_org_list demo_deps) \<and>
   entry 41 ''c41'' \<notin> fst ` set (cross_org_list demo_deps)"
proof -
  have o43: "map_of [(''id'', JInt 43), (''organization'', JNull)] ''organization'' = None \<or>
     map_of [(''id'', JInt 43), (''organization'', JNull)] ''organization'' = Some JNull \<or>
     map_of [(''id'', JInt 43), (''organization'', JNull)] ''organization'' = Some (JInt 0)"
    by simp
  have o41: "map_of [(''id'', JInt 41), (''organization'', JInt 0)] ''organization'' = None \<or>
     map_of [(''id'', JInt 41), (''organization'', JInt 0)] ''organization'' = Some JNull \<or>
     map_of [(''id'', JInt 41), (''organization'', JInt 0)] ''organization'' = Some (JInt 0)"
    by simp
  have u: "urljoin demo_env (api_base demo_client) (credential_endpoint demo_env (entry 43 ''c43'')) =
             ''https://aap.test/api/v2/credentials/43/''"
    "urljoin demo_env (api_base demo_client) (credential_endpoint demo_env (entry 41 ''c41'')) =
             ''https://aap.test/api/v2/credentials/41/''"
    by (simp_all add: credential_endpoint_def AAPClient_def rstrip_def demo_defs)
  note th43 = falsy_owner_never_flagged [OF demo_detail(4) o43]
  note th41 = falsy_owner_never_flagged [OF demo_detail(2) o41]
  from th43 have 1: "check_credential demo_env demo_client engineering (entry 43 ''c43'') demo_deps =
     ([Request ''https://aap.test/api/v2/credentials/43/''], Ok demo_deps)"
    unfolding u by blast
  from th41 have 2: "check_credential demo_env demo_client engineering (entry 41 ''c41'') demo_deps =
     ([Request ''https://aap.test/api/v2/credentials/41/''], Ok demo_deps)"
    unfolding u by blast
  from th43 demo_run have 3: "entry 43 ''c43'' \<notin> fst ` set (cross_org_list demo_deps)"
    by blast
  from th41 demo_run have 4: "entry 41 ''c41'' \<notin> fst ` set (cross_org_list demo_deps)"
    by blast
  from demo_detail demo_run 1 2 3 4 show ?thesis by simp
qed

end
